theory Spec2Isabelle
  imports Main
begin

section \<open>Values and built-ins of the scripts\<close>

text \<open>
  The three scripts under \<^verbatim>\<open>frontend/scripts\<close> read \<^verbatim>\<open>lint-report.json\<close>, keep the
  entries that carry errors or warnings and print them. What \<^verbatim>\<open>json.loads\<close> returns is a
  dynamically typed Python value: \<^verbatim>\<open>None\<close>, a \<^verbatim>\<open>bool\<close>, an \<^verbatim>\<open>int\<close>, a \<^verbatim>\<open>str\<close>, a
  \<^verbatim>\<open>list\<close> or a \<^verbatim>\<open>dict\<close> with string keys. A \<^verbatim>\<open>dict\<close> is kept as the list of its items
  in insertion order (its keys are distinct); Python's integers are unbounded, so \<open>int\<close>.
  A number written with a fraction or an exponent, and each of the literals \<^verbatim>\<open>NaN\<close>,
  \<^verbatim>\<open>Infinity\<close> and \<^verbatim>\<open>-Infinity\<close> that \<^verbatim>\<open>json.loads\<close> accepts, is a \<^verbatim>\<open>float\<close>:
  \<open>Finite s m e\<close> is the double with sign \<open>s\<close> and magnitude \<open>m * 2 ^ e\<close>,
  \<open>Infinite s\<close> an infinity with sign \<open>s\<close>.
\<close>

datatype py_float = Finite bool nat int | Infinite bool | NaN

datatype json =
    JNull
  | JBool bool
  | JInt int
  | JFloat py_float
  | JStr string
  | JArr "json list"
  | JObj "(string \<times> json) list"

text \<open>
  The exceptions the scripts can end with. \<open>SystemExit\<close> carries the message the
  interpreter writes to the error stream; the others are raised by the built-ins.
\<close>

datatype py_error =
    SystemExit string
  | FileNotFoundError
  | JSONDecodeError
  | TypeError
  | AttributeError
  | KeyError

text \<open>
  A run of a script: the argument of every \<^verbatim>\<open>print\<close> call made, in order (each call
  writes its argument and a newline), and the exception that ended the run, if any.
\<close>

type_synonym run = "string list \<times> py_error option"

definition exit_status :: "py_error option \<Rightarrow> nat" where
  "exit_status r = (case r of None \<Rightarrow> 0 | Some e \<Rightarrow> 1)"

definition newline :: char where
  "newline = CHR 0x0A"

definition stdout_text :: "string list \<Rightarrow> string" where
  "stdout_text prints = concat (map (\<lambda>s. s @ [newline]) prints)"

fun split_lines :: "string \<Rightarrow> string \<Rightarrow> string list" where
  "split_lines cur [] = (if cur = [] then [] else [rev cur])"
| "split_lines cur (c # cs) =
     (if c = newline then rev cur # split_lines [] cs else split_lines (c # cur) cs)"

definition stdout_lines :: "string list \<Rightarrow> string list" where
  "stdout_lines prints = split_lines [] (stdout_text prints)"

subsection \<open>Truthiness, \<^verbatim>\<open>dict.get\<close>, subscription, iteration, \<^verbatim>\<open>len\<close>\<close>

fun py_truthy :: "json \<Rightarrow> bool" where
  "py_truthy JNull = False"
| "py_truthy (JBool b) = b"
| "py_truthy (JInt i) = (i \<noteq> 0)"
| "py_truthy (JFloat (Finite s m e)) = (m \<noteq> 0)"
| "py_truthy (JFloat (Infinite s)) = True"
| "py_truthy (JFloat NaN) = True"
| "py_truthy (JStr s) = (s \<noteq> [])"
| "py_truthy (JArr xs) = (xs \<noteq> [])"
| "py_truthy (JObj kvs) = (kvs \<noteq> [])"

text \<open>\<^verbatim>\<open>x.get(k)\<close>: only a \<^verbatim>\<open>dict\<close> has the method; a missing key gives \<^verbatim>\<open>None\<close>.\<close>

fun py_get :: "json \<Rightarrow> string \<Rightarrow> py_error + json" where
  "py_get (JObj kvs) k = Inr (case map_of kvs k of None \<Rightarrow> JNull | Some v \<Rightarrow> v)"
| "py_get v k = Inl AttributeError"

text \<open>\<^verbatim>\<open>x.get(k, d)\<close>: the default replaces a missing key only.\<close>

fun py_get_default :: "json \<Rightarrow> string \<Rightarrow> json \<Rightarrow> py_error + json" where
  "py_get_default (JObj kvs) k d = Inr (case map_of kvs k of None \<Rightarrow> d | Some v \<Rightarrow> v)"
| "py_get_default v k d = Inl AttributeError"

text \<open>\<^verbatim>\<open>x[k]\<close> with a string key: \<^verbatim>\<open>KeyError\<close> on a \<^verbatim>\<open>dict\<close> without the key,
  \<^verbatim>\<open>TypeError\<close> on every other value.\<close>

fun py_subscript :: "json \<Rightarrow> string \<Rightarrow> py_error + json" where
  "py_subscript (JObj kvs) k = (case map_of kvs k of None \<Rightarrow> Inl KeyError | Some v \<Rightarrow> Inr v)"
| "py_subscript v k = Inl TypeError"

text \<open>\<^verbatim>\<open>for x in v\<close>: a list gives its elements, a \<^verbatim>\<open>dict\<close> its keys, a \<^verbatim>\<open>str\<close> its
  characters as strings of length one; nothing else is iterable.\<close>

fun py_iter :: "json \<Rightarrow> py_error + json list" where
  "py_iter (JArr xs) = Inr xs"
| "py_iter (JObj kvs) = Inr (map (\<lambda>kv. JStr (fst kv)) kvs)"
| "py_iter (JStr s) = Inr (map (\<lambda>c. JStr [c]) s)"
| "py_iter v = Inl TypeError"

fun py_len :: "json \<Rightarrow> py_error + nat" where
  "py_len (JArr xs) = Inr (length xs)"
| "py_len (JObj kvs) = Inr (length kvs)"
| "py_len (JStr s) = Inr (length s)"
| "py_len v = Inl TypeError"

subsection \<open>Formatting\<close>

definition digit :: "nat \<Rightarrow> char" where
  "digit n = ''0123456789'' ! (n mod 10)"

fun decimal :: "nat \<Rightarrow> string" where
  "decimal n = (if n < 10 then [digit n] else decimal (n div 10) @ [digit n])"

declare decimal.simps [simp del]

definition str_int :: "int \<Rightarrow> string" where
  "str_int i = (if i < 0 then CHR ''-'' # decimal (nat (- i)) else decimal (nat i))"

text \<open>
  \<^verbatim>\<open>str(v)\<close>, which an f-string and \<^verbatim>\<open>print\<close> apply to a value. A string is written as
  it is, \<^verbatim>\<open>None\<close> and the booleans by their names, an integer in decimal. A float, a list
  or a \<^verbatim>\<open>dict\<close> is written by the interpreter's \<^verbatim>\<open>repr\<close>, which is taken as the
  parameter \<open>repr\<close>.
\<close>

fun py_str :: "(json \<Rightarrow> string) \<Rightarrow> json \<Rightarrow> string" where
  "py_str repr JNull = ''None''"
| "py_str repr (JBool b) = (if b then ''True'' else ''False'')"
| "py_str repr (JInt i) = str_int i"
| "py_str repr (JStr s) = s"
| "py_str repr v = repr v"

subsection \<open>Loops that print\<close>

text \<open>A \<^verbatim>\<open>for\<close> loop whose body prints and may raise: the exception ends the loop and
  keeps what was printed before it.\<close>

fun for_each :: "('a \<Rightarrow> run) \<Rightarrow> 'a list \<Rightarrow> run" where
  "for_each body [] = ([], None)"
| "for_each body (x # xs) =
     (case body x of
        (out, Some e) \<Rightarrow> (out, Some e)
      | (out, None) \<Rightarrow> (case for_each body xs of (out', r) \<Rightarrow> (out @ out', r)))"

section \<open>The filter\<close>

text \<open>
  The condition of the three comprehensions,
  \<^verbatim>\<open>entry.get("errorCount") or entry.get("warningCount")\<close>: the second operand is
  evaluated only when the first is falsy, and the \<^verbatim>\<open>if\<close> tests the truthiness of the
  result.
\<close>

definition flagged :: "json \<Rightarrow> py_error + bool" where
  "flagged entry =
     (case py_get entry ''errorCount'' of
        Inl e \<Rightarrow> Inl e
      | Inr a \<Rightarrow>
          if py_truthy a then Inr True
          else (case py_get entry ''warningCount'' of
                  Inl e \<Rightarrow> Inl e
                | Inr b \<Rightarrow> Inr (py_truthy b)))"

text \<open>\<^verbatim>\<open>[entry for entry in data if ...]\<close> of \<^verbatim>\<open>lint_report_summary.py\<close> and
  \<^verbatim>\<open>lint_summary.py\<close>, element by element.\<close>

fun select_entries :: "json list \<Rightarrow> py_error + json list" where
  "select_entries [] = Inr []"
| "select_entries (entry # rest) =
     (case flagged entry of
        Inl e \<Rightarrow> Inl e
      | Inr keep \<Rightarrow>
          (case select_entries rest of
             Inl e \<Rightarrow> Inl e
           | Inr kept \<Rightarrow> Inr (if keep then entry # kept else kept)))"

definition entries :: "json \<Rightarrow> py_error + json list" where
  "entries data = (case py_iter data of Inl e \<Rightarrow> Inl e | Inr xs \<Rightarrow> select_entries xs)"

text \<open>\<^verbatim>\<open>[entry["filePath"] for entry in data if ...]\<close> of \<^verbatim>\<open>lint_files.py\<close>: the
  subscription of a kept entry is evaluated before the next entry is looked at.\<close>

fun select_files :: "json list \<Rightarrow> py_error + json list" where
  "select_files [] = Inr []"
| "select_files (entry # rest) =
     (case flagged entry of
        Inl e \<Rightarrow> Inl e
      | Inr keep \<Rightarrow>
          if keep then
            (case py_subscript entry ''filePath'' of
               Inl e \<Rightarrow> Inl e
             | Inr path \<Rightarrow>
                 (case select_files rest of Inl e \<Rightarrow> Inl e | Inr paths \<Rightarrow> Inr (path # paths)))
          else select_files rest)"

definition files :: "json \<Rightarrow> py_error + json list" where
  "files data = (case py_iter data of Inl e \<Rightarrow> Inl e | Inr xs \<Rightarrow> select_files xs)"

section \<open>The three scripts\<close>

text \<open>
  A script is run on the report file, \<open>None\<close> when \<^verbatim>\<open>lint-report.json\<close> does not exist
  and \<open>Some text\<close> with its text otherwise. \<^verbatim>\<open>json.loads\<close> is the parameter \<open>loads\<close>,
  \<open>None\<close> where it raises \<^verbatim>\<open>JSONDecodeError\<close>.
\<close>

definition not_found :: string where
  "not_found = ''lint-report.json not found. Run eslint with JSON output first.''"

subsection \<open>\<^verbatim>\<open>lint_files.py\<close>\<close>

definition lint_files :: "(string \<Rightarrow> json option) \<Rightarrow> (json \<Rightarrow> string) \<Rightarrow> string option \<Rightarrow> run" where
  "lint_files loads repr report =
     (case report of
        None \<Rightarrow> ([], Some FileNotFoundError)
      | Some text \<Rightarrow>
          (case loads text of
             None \<Rightarrow> ([], Some JSONDecodeError)
           | Some data \<Rightarrow>
               (case files data of
                  Inl e \<Rightarrow> ([], Some e)
                | Inr paths \<Rightarrow> (map (py_str repr) paths, None))))"

subsection \<open>\<^verbatim>\<open>lint_report_summary.py\<close>\<close>

definition header :: "json list \<Rightarrow> string" where
  "header es = decimal (length es) @ '' files with issues''"

definition compact_line :: "(json \<Rightarrow> string) \<Rightarrow> json \<Rightarrow> run" where
  "compact_line repr entry =
     (case py_get_default entry ''messages'' (JArr []) of
        Inl e \<Rightarrow> ([], Some e)
      | Inr ms \<Rightarrow>
          (case py_len ms of
             Inl e \<Rightarrow> ([], Some e)
           | Inr count \<Rightarrow>
               (case py_subscript entry ''filePath'' of
                  Inl e \<Rightarrow> ([], Some e)
                | Inr path \<Rightarrow>
                    ([py_str repr path @ '' - '' @ decimal count @ '' messages''], None))))"

definition lint_report_summary ::
  "(string \<Rightarrow> json option) \<Rightarrow> (json \<Rightarrow> string) \<Rightarrow> string option \<Rightarrow> run" where
  "lint_report_summary loads repr report =
     (case report of
        None \<Rightarrow> ([], Some (SystemExit not_found))
      | Some text \<Rightarrow>
          (case loads text of
             None \<Rightarrow> ([], Some JSONDecodeError)
           | Some data \<Rightarrow>
               (case entries data of
                  Inl e \<Rightarrow> ([], Some e)
                | Inr es \<Rightarrow>
                    (case for_each (compact_line repr) (take 20 es) of
                       (out, r) \<Rightarrow> (header es # out, r)))))"

subsection \<open>\<^verbatim>\<open>lint_summary.py\<close>\<close>

definition message_line :: "(json \<Rightarrow> string) \<Rightarrow> json \<Rightarrow> run" where
  "message_line repr msg =
     (case py_get_default msg ''ruleId'' (JStr ''<no-rule>'') of
        Inl e \<Rightarrow> ([], Some e)
      | Inr rule \<Rightarrow>
     (case py_get_default msg ''message'' (JStr ''<no-message>'') of
        Inl e \<Rightarrow> ([], Some e)
      | Inr message \<Rightarrow>
     (case py_get_default msg ''line'' (JInt 0) of
        Inl e \<Rightarrow> ([], Some e)
      | Inr line \<Rightarrow>
     (case py_get_default msg ''column'' (JInt 0) of
        Inl e \<Rightarrow> ([], Some e)
      | Inr col \<Rightarrow>
          ([''  '' @ py_str repr rule @ '': '' @ py_str repr message @ '' @''
              @ py_str repr line @ '':'' @ py_str repr col], None)))))"

definition detailed_block :: "(json \<Rightarrow> string) \<Rightarrow> json \<Rightarrow> run" where
  "detailed_block repr entry =
     (case py_subscript entry ''filePath'' of
        Inl e \<Rightarrow> ([], Some e)
      | Inr path \<Rightarrow>
          (case py_get_default entry ''messages'' (JArr []) of
             Inl e \<Rightarrow> ([newline # py_str repr path], Some e)
           | Inr ms \<Rightarrow>
               (case py_iter ms of
                  Inl e \<Rightarrow> ([newline # py_str repr path], Some e)
                | Inr msgs \<Rightarrow>
                    (case for_each (message_line repr) msgs of
                       (out, r) \<Rightarrow> ((newline # py_str repr path) # out, r)))))"

definition lint_summary ::
  "(string \<Rightarrow> json option) \<Rightarrow> (json \<Rightarrow> string) \<Rightarrow> string option \<Rightarrow> run" where
  "lint_summary loads repr report =
     (case report of
        None \<Rightarrow> ([], Some (SystemExit not_found))
      | Some text \<Rightarrow>
          (case loads text of
             None \<Rightarrow> ([], Some JSONDecodeError)
           | Some data \<Rightarrow>
               (case entries data of
                  Inl e \<Rightarrow> ([], Some e)
                | Inr es \<Rightarrow>
                    (case for_each (detailed_block repr) es of
                       (out, r) \<Rightarrow> (header es # out, r)))))"

section \<open>The report as the specification describes it\<close>

text \<open>
  The data model of the specification, as predicates on the parsed value. A flagged entry
  is one whose \<open>errorCount\<close> or \<open>warningCount\<close> is greater than zero, an absent count
  being zero.
\<close>

fun is_object :: "json \<Rightarrow> bool" where
  "is_object (JObj kvs) = True"
| "is_object v = False"

fun field :: "json \<Rightarrow> string \<Rightarrow> json option" where
  "field (JObj kvs) k = map_of kvs k"
| "field v k = None"

fun spec_count :: "json option \<Rightarrow> int" where
  "spec_count (Some (JInt n)) = n"
| "spec_count v = 0"

definition spec_flagged :: "json \<Rightarrow> bool" where
  "spec_flagged entry =
     (spec_count (field entry ''errorCount'') > 0 \<or> spec_count (field entry ''warningCount'') > 0)"

text \<open>A count is absent or a non-negative integer; a FileEntry is an object with a
  \<open>filePath\<close> and two such counts.\<close>

fun count_ok :: "json option \<Rightarrow> bool" where
  "count_ok None = True"
| "count_ok (Some (JInt n)) = (0 \<le> n)"
| "count_ok (Some v) = False"

definition counted_entry :: "json \<Rightarrow> bool" where
  "counted_entry entry =
     (is_object entry \<and> field entry ''filePath'' \<noteq> None
      \<and> count_ok (field entry ''errorCount'') \<and> count_ok (field entry ''warningCount''))"

text \<open>The \<open>messages\<close> of a FileEntry are absent or a list of Message objects.\<close>

fun messages_ok :: "json option \<Rightarrow> bool" where
  "messages_ok None = True"
| "messages_ok (Some (JArr ms)) = list_all is_object ms"
| "messages_ok (Some v) = False"

definition file_entry :: "json \<Rightarrow> bool" where
  "file_entry entry = (counted_entry entry \<and> messages_ok (field entry ''messages''))"

text \<open>
  What the two summaries show for an entry, in the specification's words. The compact
  summary shows the \<open>filePath\<close> and the number of messages of the entry. The detailed
  summary shows a blank line and the \<open>filePath\<close>, then one line per message, indented,
  with the \<open>ruleId\<close> or its sentinel, the \<open>message\<close> or its sentinel, and the position
  \<open>line:column\<close> with \<open>0\<close> for an absent part, in message order.
\<close>

definition path_text :: "(json \<Rightarrow> string) \<Rightarrow> json \<Rightarrow> string" where
  "path_text repr entry = (case field entry ''filePath'' of None \<Rightarrow> [] | Some p \<Rightarrow> py_str repr p)"

fun messages_of :: "json \<Rightarrow> json list" where
  "messages_of entry = (case field entry ''messages'' of Some (JArr ms) \<Rightarrow> ms | _ \<Rightarrow> [])"

definition spec_compact_line :: "(json \<Rightarrow> string) \<Rightarrow> json \<Rightarrow> string" where
  "spec_compact_line repr entry =
     path_text repr entry @ '' - '' @ decimal (length (messages_of entry)) @ '' messages''"

definition shown :: "(json \<Rightarrow> string) \<Rightarrow> json \<Rightarrow> string \<Rightarrow> json \<Rightarrow> string" where
  "shown repr msg k sentinel = py_str repr (case field msg k of None \<Rightarrow> sentinel | Some v \<Rightarrow> v)"

definition spec_message_line :: "(json \<Rightarrow> string) \<Rightarrow> json \<Rightarrow> string" where
  "spec_message_line repr msg =
     ''  '' @ shown repr msg ''ruleId'' (JStr ''<no-rule>'') @ '': ''
       @ shown repr msg ''message'' (JStr ''<no-message>'') @ '' @''
       @ shown repr msg ''line'' (JInt 0) @ '':'' @ shown repr msg ''column'' (JInt 0)"

definition spec_block :: "(json \<Rightarrow> string) \<Rightarrow> json \<Rightarrow> string list" where
  "spec_block repr entry =
     (newline # path_text repr entry) # map (spec_message_line repr) (messages_of entry)"

text \<open>
  What the detailed summary prints for one entry: a first print that starts with a
  newline (the blank line and the path), then prints indented by two spaces.
\<close>

fun is_block :: "string list \<Rightarrow> bool" where
  "is_block [] = False"
| "is_block (l # ms) = (take 1 l = [newline] \<and> list_all (\<lambda>m. take 2 m = ''  '') ms)"




section \<open>Example reports\<close>

definition report_mixed :: "json list" where
  "report_mixed =
     [JObj [(''filePath'', JStr ''a.ts''), (''errorCount'', JInt 2), (''warningCount'', JInt 0)],
      JObj [(''filePath'', JStr ''b.ts'')],
      JObj [(''filePath'', JStr ''c.ts''), (''errorCount'', JInt 0), (''warningCount'', JInt 0)],
      JObj [(''filePath'', JStr ''d.ts''), (''warningCount'', JInt 7)]]"

text \<open>A stand-in for \<^verbatim>\<open>repr\<close> in runs that never write a list or a \<^verbatim>\<open>dict\<close>.\<close>

definition repr_blank :: "json \<Rightarrow> string" where
  "repr_blank v = []"

text \<open>The one-entry report of Scenario B.\<close>

definition scenario_B :: json where
  "scenario_B =
     JArr [JObj [(''filePath'', JStr ''a.ts''), (''errorCount'', JInt 2), (''warningCount'', JInt 0),
                 (''messages'', JArr [JObj [(''ruleId'', JStr ''no-unused-vars''),
                                            (''message'', JStr ''x is unused''),
                                            (''line'', JInt 3), (''column'', JInt 5)]])]]"

text \<open>
  Scenario D: twenty-five flagged entries \<^verbatim>\<open>f01.ts\<close> to \<^verbatim>\<open>f25.ts\<close>, the first and the
  twenty-first with one message each, and two entries without findings between and after
  them. \<open>flagged_D\<close> is the list of the flagged ones.
\<close>

definition flagged_file :: "string \<Rightarrow> json list \<Rightarrow> json" where
  "flagged_file path msgs =
     JObj [(''filePath'', JStr path), (''errorCount'', JInt 1), (''messages'', JArr msgs)]"

definition report_D :: "json list" where
  "report_D =
     [flagged_file ''f01.ts'' [JObj [(''ruleId'', JStr ''semi''), (''message'', JStr ''missing''), (''line'', JInt 1), (''column'', JInt 2)]],
     flagged_file ''f02.ts'' [],
     JObj [(''filePath'', JStr ''clean.ts''), (''errorCount'', JInt 0), (''warningCount'', JInt 0)],
     flagged_file ''f03.ts'' [],
     flagged_file ''f04.ts'' [],
     flagged_file ''f05.ts'' [],
     flagged_file ''f06.ts'' [],
     flagged_file ''f07.ts'' [],
     flagged_file ''f08.ts'' [],
     flagged_file ''f09.ts'' [],
     flagged_file ''f10.ts'' [],
     flagged_file ''f11.ts'' [],
     flagged_file ''f12.ts'' [],
     flagged_file ''f13.ts'' [],
     flagged_file ''f14.ts'' [],
     flagged_file ''f15.ts'' [],
     flagged_file ''f16.ts'' [],
     flagged_file ''f17.ts'' [],
     flagged_file ''f18.ts'' [],
     flagged_file ''f19.ts'' [],
     flagged_file ''f20.ts'' [],
     flagged_file ''f21.ts'' [JObj []],
     flagged_file ''f22.ts'' [],
     flagged_file ''f23.ts'' [],
     flagged_file ''f24.ts'' [],
     flagged_file ''f25.ts'' [],
     JObj [(''filePath'', JStr ''plain.ts'')]]"

definition flagged_D :: "json list" where
  "flagged_D =
     [flagged_file ''f01.ts'' [JObj [(''ruleId'', JStr ''semi''), (''message'', JStr ''missing''), (''line'', JInt 1), (''column'', JInt 2)]],
     flagged_file ''f02.ts'' [],
     flagged_file ''f03.ts'' [],
     flagged_file ''f04.ts'' [],
     flagged_file ''f05.ts'' [],
     flagged_file ''f06.ts'' [],
     flagged_file ''f07.ts'' [],
     flagged_file ''f08.ts'' [],
     flagged_file ''f09.ts'' [],
     flagged_file ''f10.ts'' [],
     flagged_file ''f11.ts'' [],
     flagged_file ''f12.ts'' [],
     flagged_file ''f13.ts'' [],
     flagged_file ''f14.ts'' [],
     flagged_file ''f15.ts'' [],
     flagged_file ''f16.ts'' [],
     flagged_file ''f17.ts'' [],
     flagged_file ''f18.ts'' [],
     flagged_file ''f19.ts'' [],
     flagged_file ''f20.ts'' [],
     flagged_file ''f21.ts'' [JObj []],
     flagged_file ''f22.ts'' [],
     flagged_file ''f23.ts'' [],
     flagged_file ''f24.ts'' [],
     flagged_file ''f25.ts'' []]"





section \<open>Properties of the filter\<close>

lemma flagged_object:
  "flagged (JObj kvs) =
     Inr (py_truthy (case map_of kvs ''errorCount'' of None \<Rightarrow> JNull | Some v \<Rightarrow> v)
          \<or> py_truthy (case map_of kvs ''warningCount'' of None \<Rightarrow> JNull | Some v \<Rightarrow> v))"
  by (simp add: flagged_def)

lemma count_ok_truthy:
  "count_ok c \<Longrightarrow> py_truthy (case c of None \<Rightarrow> JNull | Some v \<Rightarrow> v) = (spec_count c > 0)"
  by (induction c rule: count_ok.induct) auto

lemma flagged_counted: "counted_entry entry \<Longrightarrow> flagged entry = Inr (spec_flagged entry)"
  by (cases entry) (simp_all add: counted_entry_def flagged_object spec_flagged_def count_ok_truthy)

lemma select_entries_counted:
  "list_all counted_entry es \<Longrightarrow> select_entries es = Inr (filter spec_flagged es)"
  by (induction es) (simp_all add: flagged_counted)

lemma select_files_counted:
  "list_all counted_entry es \<Longrightarrow>
   \<exists>paths. select_files es = Inr paths \<and>
     map (\<lambda>e. py_subscript e ''filePath'') (filter spec_flagged es) = map Inr paths"
proof (induction es)
  case Nil
  then show ?case by simp
next
  case (Cons entry rest)
  then obtain paths where rest: "select_files rest = Inr paths"
      "map (\<lambda>e. py_subscript e ''filePath'') (filter spec_flagged rest) = map Inr paths"
    by auto
  from Cons.prems have c: "counted_entry entry" by simp
  then obtain kvs p where e: "entry = JObj kvs" "map_of kvs ''filePath'' = Some p"
    by (cases entry) (auto simp: counted_entry_def)
  show ?case
    using rest e flagged_counted [OF c] by (cases "spec_flagged entry") simp_all
qed

text \<open>
  C1. On a report whose entries are FileEntry objects with absent or non-negative integer
  counts, the comprehension of \<^verbatim>\<open>lint_report_summary.py\<close> and \<^verbatim>\<open>lint_summary.py\<close> yields
  exactly the entries with \<open>errorCount > 0\<close> or \<open>warningCount > 0\<close>, in their original
  order, and the comprehension of \<^verbatim>\<open>lint_files.py\<close> yields the \<open>filePath\<close> of exactly
  those entries, in the same order.
\<close>

theorem issue_filter_exact:
  assumes "list_all counted_entry es"
  shows "entries (JArr es) = Inr (filter spec_flagged es) \<and>
         (\<exists>paths. files (JArr es) = Inr paths \<and>
            map (\<lambda>e. py_subscript e ''filePath'') (filter spec_flagged es) = map Inr paths)"
  using select_entries_counted [OF assms] select_files_counted [OF assms]
  by (simp add: entries_def files_def)

theorem issue_filter_exact_witness:
  "list_all counted_entry report_mixed \<and>
   entries (JArr report_mixed) =
     Inr [JObj [(''filePath'', JStr ''a.ts''), (''errorCount'', JInt 2), (''warningCount'', JInt 0)],
          JObj [(''filePath'', JStr ''d.ts''), (''warningCount'', JInt 7)]] \<and>
   files (JArr report_mixed) = Inr [JStr ''a.ts'', JStr ''d.ts'']"
proof -
  have wf: "list_all counted_entry report_mixed"
    by (simp add: report_mixed_def counted_entry_def)
  have sel: "filter spec_flagged report_mixed =
     [JObj [(''filePath'', JStr ''a.ts''), (''errorCount'', JInt 2), (''warningCount'', JInt 0)],
      JObj [(''filePath'', JStr ''d.ts''), (''warningCount'', JInt 7)]]"
    by (simp add: report_mixed_def spec_flagged_def)
  from issue_filter_exact [OF wf] show ?thesis
    unfolding sel using wf by auto
qed

section \<open>Membership in the filtered lists, and formatting\<close>

lemma select_entries_Cons:
  assumes "select_entries (entry # rest) = Inr fs"
  obtains keep kept where "flagged entry = Inr keep" and "select_entries rest = Inr kept"
    and "fs = (if keep then entry # kept else kept)"
proof (cases "flagged entry")
  case (Inl e)
  with assms show ?thesis by simp
next
  case keep: (Inr keep)
  show ?thesis
  proof (cases "select_entries rest")
    case (Inl e)
    with assms keep show ?thesis by simp
  next
    case (Inr kept)
    with assms keep have "fs = (if keep then entry # kept else kept)" by simp
    with keep Inr that show ?thesis by blast
  qed
qed

lemma select_entries_set:
  "select_entries es = Inr fs \<Longrightarrow> e \<in> set fs \<longleftrightarrow> e \<in> set es \<and> flagged e = Inr True"
proof (induction es arbitrary: fs)
  case Nil
  then show ?case by simp
next
  case (Cons entry rest)
  from Cons.prems obtain keep kept where k: "flagged entry = Inr keep"
    and r: "select_entries rest = Inr kept" and fs: "fs = (if keep then entry # kept else kept)"
    by (rule select_entries_Cons)
  have ih: "e \<in> set kept \<longleftrightarrow> e \<in> set rest \<and> flagged e = Inr True"
    using r by (rule Cons.IH)
  show ?case
  proof (cases keep)
    case True
    with fs k ih show ?thesis by auto
  next
    case False
    with fs k ih show ?thesis by auto
  qed
qed

lemma select_files_member:
  "select_files es = Inr ps \<Longrightarrow> e \<in> set es \<Longrightarrow> flagged e = Inr True \<Longrightarrow>
   \<exists>p. py_subscript e ''filePath'' = Inr p \<and> p \<in> set ps"
  by (induction es arbitrary: ps) (auto split: sum.splits if_splits)

lemma decimal_0: "decimal 0 = ''0''"
  by (simp add: decimal.simps digit_def)

lemma message_line_object:
  "message_line repr (JObj m) =
     ([''  '' @ py_str repr (case map_of m ''ruleId'' of None \<Rightarrow> JStr ''<no-rule>'' | Some v \<Rightarrow> v)
        @ '': '' @ py_str repr (case map_of m ''message'' of None \<Rightarrow> JStr ''<no-message>'' | Some v \<Rightarrow> v)
        @ '' @'' @ py_str repr (case map_of m ''line'' of None \<Rightarrow> JInt 0 | Some v \<Rightarrow> v)
        @ '':'' @ py_str repr (case map_of m ''column'' of None \<Rightarrow> JInt 0 | Some v \<Rightarrow> v)], None)"
  by (simp add: message_line_def)

section \<open>The missing report\<close>

text \<open>
  C3. When \<^verbatim>\<open>lint-report.json\<close> does not exist, \<^verbatim>\<open>lint_report_summary.py\<close> and
  \<^verbatim>\<open>lint_summary.py\<close> print nothing and end with \<^verbatim>\<open>SystemExit\<close> carrying the message
  that the report was not found and that eslint has to be run with JSON output first;
  the exit status is not zero.
\<close>

theorem missing_report_exit:
  "lint_report_summary loads repr None =
     ([], Some (SystemExit ''lint-report.json not found. Run eslint with JSON output first.'')) \<and>
   lint_summary loads repr None =
     ([], Some (SystemExit ''lint-report.json not found. Run eslint with JSON output first.'')) \<and>
   exit_status (snd (lint_report_summary loads repr None)) \<noteq> 0 \<and>
   exit_status (snd (lint_summary loads repr None)) \<noteq> 0"
  by (simp add: lint_report_summary_def lint_summary_def not_found_def exit_status_def)

text \<open>
  C4. When \<^verbatim>\<open>lint-report.json\<close> does not exist, \<^verbatim>\<open>lint_files.py\<close> has no existence
  check: \<^verbatim>\<open>read_text\<close> raises \<^verbatim>\<open>FileNotFoundError\<close>, which is not the \<^verbatim>\<open>SystemExit\<close>
  with the instruction to generate the report that the two other scripts end with.
\<close>

theorem lint_files_missing_report:
  "lint_files loads repr None = ([], Some FileNotFoundError) \<and>
   snd (lint_files loads repr None) \<noteq> snd (lint_report_summary loads repr None) \<and>
   snd (lint_files loads repr None) \<noteq> snd (lint_summary loads repr None)"
  by (simp add: lint_files_def lint_report_summary_def lint_summary_def)

section \<open>Missing and unusual fields\<close>





section \<open>Scenario B\<close>

text \<open>
  C8. Scenario B: on the one-entry report, \<^verbatim>\<open>lint_files.py\<close> prints \<^verbatim>\<open>a.ts\<close>;
  \<^verbatim>\<open>lint_report_summary.py\<close> prints \<^verbatim>\<open>1 files with issues\<close> and \<^verbatim>\<open>a.ts - 1 messages\<close>;
  \<^verbatim>\<open>lint_summary.py\<close> prints \<^verbatim>\<open>1 files with issues\<close>, an empty line, \<^verbatim>\<open>a.ts\<close> and
  \<^verbatim>\<open>  no-unused-vars: x is unused @3:5\<close>.
\<close>

theorem scenario_B_output:
  "lint_files [''B'' \<mapsto> scenario_B] repr (Some ''B'') = ([''a.ts''], None) \<and>
   lint_report_summary [''B'' \<mapsto> scenario_B] repr (Some ''B'')
     = ([''1 files with issues'', ''a.ts - 1 messages''], None) \<and>
   lint_summary [''B'' \<mapsto> scenario_B] repr (Some ''B'')
     = ([''1 files with issues'', newline # ''a.ts'', ''  no-unused-vars: x is unused @3:5''], None) \<and>
   stdout_lines (fst (lint_summary [''B'' \<mapsto> scenario_B] repr (Some ''B'')))
     = [''1 files with issues'', '''', ''a.ts'', ''  no-unused-vars: x is unused @3:5'']"
proof -
  have e: "entries scenario_B = Inr
     [JObj [(''filePath'', JStr ''a.ts''), (''errorCount'', JInt 2), (''warningCount'', JInt 0),
                 (''messages'', JArr [JObj [(''ruleId'', JStr ''no-unused-vars''),
                                            (''message'', JStr ''x is unused''),
                                            (''line'', JInt 3), (''column'', JInt 5)]])]]"
    by (simp add: scenario_B_def entries_def flagged_object)
  have f: "files scenario_B = Inr [JStr ''a.ts'']"
    by (simp add: scenario_B_def files_def flagged_object)
  have d: "decimal (Suc 0) = ''1''" "decimal 3 = ''3''" "decimal 5 = ''5''"
    by (subst decimal.simps, simp add: digit_def)+
  have 1: "lint_files [''B'' \<mapsto> scenario_B] repr (Some ''B'') = ([''a.ts''], None)"
    by (simp add: lint_files_def f)
  have 2: "lint_report_summary [''B'' \<mapsto> scenario_B] repr (Some ''B'')
     = ([''1 files with issues'', ''a.ts - 1 messages''], None)"
    by (simp add: lint_report_summary_def e header_def compact_line_def d)
  have 3: "lint_summary [''B'' \<mapsto> scenario_B] repr (Some ''B'')
     = ([''1 files with issues'', newline # ''a.ts'', ''  no-unused-vars: x is unused @3:5''], None)"
    by (simp add: lint_summary_def e header_def detailed_block_def message_line_object str_int_def d)
  have 4: "stdout_lines [''1 files with issues'', newline # ''a.ts'', ''  no-unused-vars: x is unused @3:5'']
     = [''1 files with issues'', '''', ''a.ts'', ''  no-unused-vars: x is unused @3:5'']"
    by (simp add: stdout_lines_def stdout_text_def newline_def)
  from 1 2 3 4 show ?thesis by simp
qed

section \<open>Null values and truthy counts\<close>



text \<open>
  C10. An entry is flagged as soon as its \<open>errorCount\<close> or \<open>warningCount\<close> is a truthy
  value, a negative integer included: the filter of all three scripts keeps it, since the
  condition tests truthiness and not \<open>> 0\<close>.
\<close>

theorem truthy_count_flags:
  assumes "map_of kvs ''errorCount'' = Some v \<or> map_of kvs ''warningCount'' = Some v"
    and "py_truthy v"
  shows "flagged (JObj kvs) = Inr True \<and>
         (\<forall>es fs. entries (JArr es) = Inr fs \<and> JObj kvs \<in> set es \<longrightarrow> JObj kvs \<in> set fs) \<and>
         (\<forall>es ps. files (JArr es) = Inr ps \<and> JObj kvs \<in> set es \<longrightarrow>
            (\<exists>p. map_of kvs ''filePath'' = Some p \<and> p \<in> set ps))"
proof -
  have f: "flagged (JObj kvs) = Inr True"
    using assms by (auto simp: flagged_object)
  have m: "JObj kvs \<in> set fs" if "entries (JArr es) = Inr fs \<and> JObj kvs \<in> set es" for es fs
  proof -
    from that have "select_entries es = Inr fs"
      by (simp add: entries_def)
    from select_entries_set [OF this] that f show ?thesis
      by blast
  qed
  have p: "\<exists>p. map_of kvs ''filePath'' = Some p \<and> p \<in> set ps"
    if "files (JArr es) = Inr ps \<and> JObj kvs \<in> set es" for es ps
  proof -
    from that have "select_files es = Inr ps" "JObj kvs \<in> set es"
      by (simp_all add: files_def)
    from select_files_member [OF this f] show ?thesis
      by (auto split: option.splits)
  qed
  from f m p show ?thesis by blast
qed

theorem truthy_count_flags_witness:
  "py_truthy (JInt (- 1)) \<and>
   flagged (JObj [(''filePath'', JStr ''a.ts''), (''errorCount'', JInt (- 1))]) = Inr True \<and>
   \<not> spec_flagged (JObj [(''filePath'', JStr ''a.ts''), (''errorCount'', JInt (- 1))]) \<and>
   entries (JArr [JObj [(''filePath'', JStr ''a.ts''), (''errorCount'', JInt (- 1))]])
     = Inr [JObj [(''filePath'', JStr ''a.ts''), (''errorCount'', JInt (- 1))]] \<and>
   files (JArr [JObj [(''filePath'', JStr ''a.ts''), (''errorCount'', JInt (- 1))]])
     = Inr [JStr ''a.ts'']"
proof -
  have h1: "map_of [(''filePath'', JStr ''a.ts''), (''errorCount'', JInt (- 1))] ''errorCount''
              = Some (JInt (- 1)) \<or>
            map_of [(''filePath'', JStr ''a.ts''), (''errorCount'', JInt (- 1))] ''warningCount''
              = Some (JInt (- 1))"
    by simp
  have h2: "py_truthy (JInt (- 1))"
    by simp
  from truthy_count_flags [OF h1 h2]
  have f: "flagged (JObj [(''filePath'', JStr ''a.ts''), (''errorCount'', JInt (- 1))]) = Inr True"
    by (rule conjunct1)
  show ?thesis
    using f h2 by (simp add: spec_flagged_def entries_def files_def)
qed

section \<open>The cap of the compact summary\<close>

lemma message_line_spec:
  "is_object msg \<Longrightarrow> message_line repr msg = ([spec_message_line repr msg], None)"
  by (cases msg) (simp_all add: message_line_object spec_message_line_def shown_def)

lemma for_each_message_lines:
  "list_all is_object ms \<Longrightarrow>
   for_each (message_line repr) ms = (map (spec_message_line repr) ms, None)"
  by (induction ms) (simp_all add: message_line_spec)

lemma file_entry_parts:
  assumes "file_entry entry"
  obtains kvs p where "entry = JObj kvs" and "map_of kvs ''filePath'' = Some p"
    and "messages_ok (map_of kvs ''messages'')"
proof -
  from assms obtain kvs where e: "entry = JObj kvs"
    by (cases entry) (auto simp: file_entry_def counted_entry_def)
  with assms obtain p where "map_of kvs ''filePath'' = Some p"
    by (auto simp: file_entry_def counted_entry_def)
  moreover from assms e have "messages_ok (map_of kvs ''messages'')"
    by (simp add: file_entry_def)
  ultimately show ?thesis
    using e that by blast
qed

lemma messages_ok_iter:
  assumes "messages_ok (map_of kvs ''messages'')"
  shows "py_iter (case map_of kvs ''messages'' of None \<Rightarrow> JArr [] | Some v \<Rightarrow> v)
           = Inr (messages_of (JObj kvs))"
    and "py_len (case map_of kvs ''messages'' of None \<Rightarrow> JArr [] | Some v \<Rightarrow> v)
           = Inr (length (messages_of (JObj kvs)))"
    and "list_all is_object (messages_of (JObj kvs))"
  using assms by (cases "map_of kvs ''messages''" rule: messages_ok.cases; simp)+

lemma compact_line_entry:
  assumes "file_entry entry"
  shows "compact_line repr entry = ([spec_compact_line repr entry], None)"
proof -
  from assms obtain kvs p where e: "entry = JObj kvs" and p: "map_of kvs ''filePath'' = Some p"
    and m: "messages_ok (map_of kvs ''messages'')"
    by (rule file_entry_parts)
  have "compact_line repr (JObj kvs) =
          ([py_str repr p @ '' - '' @ decimal (length (messages_of (JObj kvs))) @ '' messages''], None)"
    unfolding compact_line_def using p messages_ok_iter(2) [OF m] by simp
  moreover have "path_text repr (JObj kvs) = py_str repr p"
    using p by (simp add: path_text_def)
  ultimately show ?thesis
    using e by (simp add: spec_compact_line_def)
qed

lemma detailed_block_entry:
  assumes "file_entry entry"
  shows "detailed_block repr entry = (spec_block repr entry, None)"
proof -
  from assms obtain kvs p where e: "entry = JObj kvs" and p: "map_of kvs ''filePath'' = Some p"
    and m: "messages_ok (map_of kvs ''messages'')"
    by (rule file_entry_parts)
  have l: "for_each (message_line repr) (messages_of (JObj kvs))
             = (map (spec_message_line repr) (messages_of (JObj kvs)), None)"
    using messages_ok_iter(3) [OF m] by (rule for_each_message_lines)
  have "detailed_block repr (JObj kvs) =
          ((newline # py_str repr p) # map (spec_message_line repr) (messages_of (JObj kvs)), None)"
    unfolding detailed_block_def using p messages_ok_iter(1) [OF m] l by simp
  moreover have "path_text repr (JObj kvs) = py_str repr p"
    using p by (simp add: path_text_def)
  ultimately show ?thesis
    using e by (simp add: spec_block_def)
qed

lemma compact_lines:
  "list_all file_entry fs \<Longrightarrow>
   for_each (compact_line repr) fs = (map (spec_compact_line repr) fs, None)"
  by (induction fs) (simp_all add: compact_line_entry)

lemma detailed_blocks:
  "list_all file_entry fs \<Longrightarrow>
   for_each (detailed_block repr) fs = (concat (map (spec_block repr) fs), None)"
  by (induction fs) (simp_all add: detailed_block_entry)

lemma spec_block_is_block: "is_block (spec_block repr entry)"
  by (simp add: spec_block_def spec_message_line_def list_all_iff)

lemma file_entry_counted: "list_all file_entry es \<Longrightarrow> list_all counted_entry es"
  by (induction es) (simp_all add: file_entry_def)

lemma list_all_filter: "list_all P xs \<Longrightarrow> list_all P (filter Q xs)"
  by (induction xs) simp_all

lemma list_all_take: "list_all P xs \<Longrightarrow> list_all P (take n xs)"
  by (induction xs arbitrary: n) (simp_all add: take_Cons split: nat.splits)

text \<open>
  C2. On a report of FileEntry objects with \<open>n\<close> flagged entries, the compact summary
  prints the header with the total \<open>n\<close> and then \<open>min 20 n\<close> entry lines: the lines of the
  first twenty flagged entries, in order, each with the entry's path and message count, and
  nothing for the entries after the twentieth. The detailed summary prints the same header
  and then exactly \<open>n\<close> blocks, the block of every flagged entry, in order. With 25 flagged
  entries these are 20 lines and 25 blocks.
\<close>

theorem compact_cap_detailed_all:
  assumes "loads text = Some (JArr es)" and "list_all file_entry es"
  shows "\<exists>ls blocks.
           lint_report_summary loads repr (Some text)
             = ((decimal (length (filter spec_flagged es)) @ '' files with issues'') # ls, None) \<and>
           length ls = min 20 (length (filter spec_flagged es)) \<and>
           ls = map (spec_compact_line repr) (take 20 (filter spec_flagged es)) \<and>
           lint_summary loads repr (Some text)
             = ((decimal (length (filter spec_flagged es)) @ '' files with issues'') # concat blocks, None) \<and>
           length blocks = length (filter spec_flagged es) \<and>
           list_all is_block blocks \<and>
           blocks = map (spec_block repr) (filter spec_flagged es)"
proof -
  let ?fs = "filter spec_flagged es"
  let ?ls = "map (spec_compact_line repr) (take 20 ?fs)"
  let ?blocks = "map (spec_block repr) ?fs"
  have e: "entries (JArr es) = Inr ?fs"
    using select_entries_counted [OF file_entry_counted [OF assms(2)]] by (simp add: entries_def)
  have fs: "list_all file_entry ?fs"
    using assms(2) by (rule list_all_filter)
  have c: "for_each (compact_line repr) (take 20 ?fs) = (?ls, None)"
    using list_all_take [OF fs] by (rule compact_lines)
  have d: "for_each (detailed_block repr) ?fs = (concat ?blocks, None)"
    using fs by (rule detailed_blocks)
  have 1: "lint_report_summary loads repr (Some text)
             = ((decimal (length ?fs) @ '' files with issues'') # ?ls, None)"
    using assms(1) e c by (simp add: lint_report_summary_def header_def)
  have 2: "length ?ls = min 20 (length ?fs)"
    by simp
  have 3: "lint_summary loads repr (Some text)
             = ((decimal (length ?fs) @ '' files with issues'') # concat ?blocks, None)"
    using assms(1) e d by (simp add: lint_summary_def header_def)
  have 4: "length ?blocks = length ?fs"
    by simp
  have 5: "list_all is_block ?blocks"
    by (simp add: list_all_iff spec_block_is_block)
  from 1 2 3 4 5 show ?thesis
    by blast
qed

lemma decimal_1: "decimal (Suc 0) = ''1''"
  by (subst decimal.simps) (simp add: digit_def)

lemma decimal_25: "decimal 25 = ''25''"
  by (simp add: decimal.simps digit_def)

lemma report_D_ok: "list_all file_entry report_D"
  by (simp add: report_D_def flagged_file_def file_entry_def counted_entry_def)

lemma report_D_flagged: "filter spec_flagged report_D = flagged_D"
  by (simp add: report_D_def flagged_D_def flagged_file_def spec_flagged_def)

lemma flagged_D_length: "length flagged_D = 25"
  by (simp add: flagged_D_def)

lemma compact_D:
  "map (spec_compact_line repr_blank) (take 20 flagged_D) =
     [''f01.ts - 1 messages'',
     ''f02.ts - 0 messages'',
     ''f03.ts - 0 messages'',
     ''f04.ts - 0 messages'',
     ''f05.ts - 0 messages'',
     ''f06.ts - 0 messages'',
     ''f07.ts - 0 messages'',
     ''f08.ts - 0 messages'',
     ''f09.ts - 0 messages'',
     ''f10.ts - 0 messages'',
     ''f11.ts - 0 messages'',
     ''f12.ts - 0 messages'',
     ''f13.ts - 0 messages'',
     ''f14.ts - 0 messages'',
     ''f15.ts - 0 messages'',
     ''f16.ts - 0 messages'',
     ''f17.ts - 0 messages'',
     ''f18.ts - 0 messages'',
     ''f19.ts - 0 messages'',
     ''f20.ts - 0 messages'']"
  by (simp add: flagged_D_def flagged_file_def spec_compact_line_def path_text_def
        decimal_0 decimal_1)

lemma detailed_D:
  "concat (map (spec_block repr_blank) flagged_D) =
     [newline # ''f01.ts'',
     ''  semi: missing @1:2'',
     newline # ''f02.ts'',
     newline # ''f03.ts'',
     newline # ''f04.ts'',
     newline # ''f05.ts'',
     newline # ''f06.ts'',
     newline # ''f07.ts'',
     newline # ''f08.ts'',
     newline # ''f09.ts'',
     newline # ''f10.ts'',
     newline # ''f11.ts'',
     newline # ''f12.ts'',
     newline # ''f13.ts'',
     newline # ''f14.ts'',
     newline # ''f15.ts'',
     newline # ''f16.ts'',
     newline # ''f17.ts'',
     newline # ''f18.ts'',
     newline # ''f19.ts'',
     newline # ''f20.ts'',
     newline # ''f21.ts'',
     ''  <no-rule>: <no-message> @0:0'',
     newline # ''f22.ts'',
     newline # ''f23.ts'',
     newline # ''f24.ts'',
     newline # ''f25.ts'']"
  by (simp add: flagged_D_def flagged_file_def spec_block_def path_text_def spec_message_line_def
        shown_def str_int_def decimal_0 decimal_1 decimal.simps [of 2] digit_def)

theorem compact_cap_detailed_all_witness:
  "list_all file_entry report_D \<and>
   length (filter spec_flagged report_D) = 25 \<and>
   lint_report_summary [''D'' \<mapsto> JArr report_D] repr_blank (Some ''D'') =
     (''25 files with issues'' #
      [''f01.ts - 1 messages'',
      ''f02.ts - 0 messages'',
      ''f03.ts - 0 messages'',
      ''f04.ts - 0 messages'',
      ''f05.ts - 0 messages'',
      ''f06.ts - 0 messages'',
      ''f07.ts - 0 messages'',
      ''f08.ts - 0 messages'',
      ''f09.ts - 0 messages'',
      ''f10.ts - 0 messages'',
      ''f11.ts - 0 messages'',
      ''f12.ts - 0 messages'',
      ''f13.ts - 0 messages'',
      ''f14.ts - 0 messages'',
      ''f15.ts - 0 messages'',
      ''f16.ts - 0 messages'',
      ''f17.ts - 0 messages'',
      ''f18.ts - 0 messages'',
      ''f19.ts - 0 messages'',
      ''f20.ts - 0 messages''], None) \<and>
   lint_summary [''D'' \<mapsto> JArr report_D] repr_blank (Some ''D'') =
     (''25 files with issues'' #
      [newline # ''f01.ts'',
      ''  semi: missing @1:2'',
      newline # ''f02.ts'',
      newline # ''f03.ts'',
      newline # ''f04.ts'',
      newline # ''f05.ts'',
      newline # ''f06.ts'',
      newline # ''f07.ts'',
      newline # ''f08.ts'',
      newline # ''f09.ts'',
      newline # ''f10.ts'',
      newline # ''f11.ts'',
      newline # ''f12.ts'',
      newline # ''f13.ts'',
      newline # ''f14.ts'',
      newline # ''f15.ts'',
      newline # ''f16.ts'',
      newline # ''f17.ts'',
      newline # ''f18.ts'',
      newline # ''f19.ts'',
      newline # ''f20.ts'',
      newline # ''f21.ts'',
      ''  <no-rule>: <no-message> @0:0'',
      newline # ''f22.ts'',
      newline # ''f23.ts'',
      newline # ''f24.ts'',
      newline # ''f25.ts''], None)"
proof -
  have l: "[''D'' \<mapsto> JArr report_D] ''D'' = Some (JArr report_D)"
    by simp
  have a: "decimal 25 @ '' files with issues'' = ''25 files with issues''"
    unfolding decimal_25 by simp
  from compact_cap_detailed_all
         [of "[''D'' \<mapsto> JArr report_D]" "''D''" report_D repr_blank, OF l report_D_ok]
  obtain ls blocks where
    1: "lint_report_summary [''D'' \<mapsto> JArr report_D] repr_blank (Some ''D'')
          = (''25 files with issues'' # ls, None)"
    and 2: "ls = map (spec_compact_line repr_blank) (take 20 flagged_D)"
    and 3: "lint_summary [''D'' \<mapsto> JArr report_D] repr_blank (Some ''D'')
          = (''25 files with issues'' # concat blocks, None)"
    and 4: "blocks = map (spec_block repr_blank) flagged_D"
    unfolding report_D_flagged flagged_D_length a by blast
  have n: "length (filter spec_flagged report_D) = 25"
    unfolding report_D_flagged by (rule flagged_D_length)
  note r1 = 1 [unfolded 2 compact_D]
  note r2 = 3 [unfolded 4 detailed_D]
  from report_D_ok n r1 r2 show ?thesis
    by (intro conjI)
qed

section \<open>Malformed reports\<close>

lemma flagged_not_object: "\<not> is_object e \<Longrightarrow> flagged e = Inl AttributeError"
  by (cases e) (simp_all add: flagged_def)

lemma flagged_Inr_object: "flagged e = Inr keep \<Longrightarrow> is_object e"
  using flagged_not_object [of e] by auto








end
